theory Spec2Isabelle
  imports Complex_Main "HOL-Library.Word" "HOL-Library.Sublist"
begin

section \<open>The whisper.cpp JNI bridge (whisper-jni.cpp)\<close>

text \<open>
  The bridge marshals a model path and audio samples across the Java/native boundary,
  calls the inference library and marshals the text back.  The library and the JNI
  environment are not part of the bridge: the library is a parameter (a record of its
  entry points over an abstract library state), the JNI calls are modelled from the JNI
  specification.  Everything the bridge does to the outside is a component of \<open>world\<close>.
\<close>

subsection \<open>Values crossing the boundary\<close>

text \<open>
  A file is its sequence of bytes (C \<open>char\<close>).  A \<open>float\<close> sample is the rational it
  denotes: the only float arithmetic of the bridge is \<open>pcm16[i] / 32768.0f\<close>, the
  conversion of a 16-bit integer (exact below \<open>2^24\<close>) followed by a division by a power of
  two (exact, no underflow), see \<open>pcm16_to_float_binary32\<close> below.  A \<open>jlong\<close> is a 64-bit
  word, a native pointer a word of the ABI's pointer width (the library's pointer type
  \<open>'p\<close> is instantiated with \<open>'n word\<close> in the bridge functions).
\<close>

type_synonym f32 = rat
type_synonym jlong = "64 word"
type_synonym jfloatArray = nat

datatype log_priority = ANDROID_LOG_INFO | ANDROID_LOG_ERROR

datatype whisper_sampling_strategy = WHISPER_SAMPLING_GREEDY | WHISPER_SAMPLING_BEAM_SEARCH

datatype release_mode = JNI_ZERO | JNI_COMMIT | JNI_ABORT

text \<open>
  The fields of \<open>struct whisper_full_params\<close> that the bridge assigns; every other field
  of the struct lives in the extension part \<open>more\<close> of the record.
\<close>

record whisper_full_params =
  print_realtime :: bool
  print_progress :: bool
  print_timestamps :: bool
  print_special :: bool
  translate :: bool
  language :: string
  n_threads :: int
  offset_ms :: int
  no_context :: bool
  single_segment :: bool

text \<open>
  The entry points of whisper.h that the bridge calls.  \<open>'l\<close> is the library's state (all
  contexts it has loaded), \<open>'c\<close> the context parameters, \<open>'m\<close> the unassigned fields of the
  inference parameters.  \<open>whisper_full\<close> takes the samples through a \<open>const float *\<close>: it
  returns a code and a new library state, never changed samples.
\<close>

record ('l, 'c, 'm, 'p) whisper_api =
  whisper_context_default_params :: 'c
  whisper_init_from_file_with_params :: "'l \<Rightarrow> string \<Rightarrow> 'c \<Rightarrow> 'p \<times> 'l"
  whisper_free :: "'l \<Rightarrow> 'p \<Rightarrow> 'l"
  whisper_full_default_params :: "whisper_sampling_strategy \<Rightarrow> 'm whisper_full_params_scheme"
  whisper_full :: "'l \<Rightarrow> 'p \<Rightarrow> 'm whisper_full_params_scheme \<Rightarrow> f32 list \<Rightarrow> int \<times> 'l"
  whisper_full_n_segments :: "'l \<Rightarrow> 'p \<Rightarrow> int"
  whisper_full_get_segment_text :: "'l \<Rightarrow> 'p \<Rightarrow> int \<Rightarrow> string"
  whisper_print_system_info :: "'l \<Rightarrow> string"

text \<open>The state-changing library calls, in the order the bridge made them.\<close>

datatype ('c, 'm, 'p) lib_call =
  Call_init_from_file string 'c
| Call_free 'p
| Call_full 'p "'m whisper_full_params_scheme" "f32 list"

text \<open>How the JVM answers \<open>GetFloatArrayElements\<close> for an array: not at all (NULL), with a
  pointer into the array itself, or with a copy.\<close>

datatype array_access = Access_fails | Access_pinned | Access_copied

record ('l, 'c, 'm, 'p) world =
  lib :: 'l
  lib_calls :: "('c, 'm, 'p) lib_call list"
  logcat :: "(log_priority \<times> string) list"
  files :: "string \<Rightarrow> string option"
  stack_junk :: "nat \<Rightarrow> char"
  java_arrays :: "jfloatArray \<Rightarrow> f32 list"
  array_access :: "jfloatArray \<Rightarrow> array_access"
  heap_overflow :: bool

text \<open>
  \<open>files w name\<close> is \<open>None\<close> when the file cannot be opened.  \<open>stack_junk w i\<close> is the
  indeterminate byte that \<open>header[i]\<close> holds before anything is read into it (the local
  array \<open>char header[44]\<close> has no initialiser).  \<open>heap_overflow w\<close> says that the process
  has written past the end of a heap block: from then on the C++ program has undefined
  behaviour, and what the model returns is what a run returns in which the stray byte
  did no harm.
\<close>

subsection \<open>Logging and number formatting\<close>

definition LOGI :: "string \<Rightarrow> ('l, 'c, 'm, 'p) world \<Rightarrow> ('l, 'c, 'm, 'p) world" where
  "LOGI msg w = w\<lparr>logcat := logcat w @ [(ANDROID_LOG_INFO, msg)]\<rparr>"

definition LOGE :: "string \<Rightarrow> ('l, 'c, 'm, 'p) world \<Rightarrow> ('l, 'c, 'm, 'p) world" where
  "LOGE msg w = w\<lparr>logcat := logcat w @ [(ANDROID_LOG_ERROR, msg)]\<rparr>"

fun fmt_zu :: "nat \<Rightarrow> string" where
  "fmt_zu n = (if n < 10 then [char_of (48 + n)]
               else fmt_zu (n div 10) @ [char_of (48 + n mod 10)])"

definition fmt_d :: "int \<Rightarrow> string" where
  "fmt_d i = (if i < 0 then CHR ''-'' # fmt_zu (nat (- i)) else fmt_zu (nat i))"

subsection \<open>The WAV reader\<close>

text \<open>
  \<open>std::ifstream\<close>, as far as the reader uses it: the bytes not yet read and the
  \<open>good()\<close> flag.  \<open>read(buf, n)\<close> on a stream that is not good extracts nothing; otherwise
  it extracts up to \<open>n\<close> bytes and, when fewer than \<open>n\<close> were left, sets failbit and eofbit.
  Memory is taken to be unbounded: the allocation of the two sample vectors succeeds
  (\<open>data_size / 2\<close> is at most \<open>2^31 - 1\<close>, so the sample count also fits the \<open>int\<close>
  parameter of the inference call).
\<close>

record ifstream =
  unread :: string
  good :: bool

definition ifstream_read :: "ifstream \<Rightarrow> nat \<Rightarrow> string \<times> ifstream" where
  "ifstream_read f n =
     (if \<not> good f then ([], f)
      else let got = take n (unread f)
           in (got, \<lparr>unread = drop n (unread f), good = (length got = n)\<rparr>))"

text \<open>
  The buffer after the extracted bytes were stored at its start.  Bytes the buffer was not
  written with keep what they held.  Bytes stored past the end of the buffer are not part
  of its contents.  The second \<open>read\<close> asks for \<open>data_size\<close> bytes into a vector of
  \<open>2 * (data_size / 2)\<close> bytes: for an odd \<open>data_size\<close> and a file that has that many
  bytes left, the last byte is written past the vector (at \<open>data_size = 1\<close> the vector is
  empty and the byte goes through its null \<open>data()\<close>).  \<open>read_wav_file\<close> records that in
  \<open>heap_overflow\<close>.
\<close>

definition store_bytes :: "string \<Rightarrow> string \<Rightarrow> string" where
  "store_bytes buf got = take (length buf) (got @ drop (length got) buf)"

text \<open>\<open>*(uint32_t* )(header + 40)\<close> and the \<open>int16_t\<close> view of the sample bytes, on the
  little-endian ABIs Android has.\<close>

definition load_u32 :: "string \<Rightarrow> nat \<Rightarrow> 32 word" where
  "load_u32 buf off =
     of_char (buf ! off) + 256 * of_char (buf ! (off + 1))
       + 65536 * of_char (buf ! (off + 2)) + 16777216 * of_char (buf ! (off + 3))"

definition load_i16 :: "string \<Rightarrow> nat \<Rightarrow> 16 word" where
  "load_i16 buf off = of_char (buf ! off) + 256 * of_char (buf ! (off + 1))"

definition pcm16_to_float :: "16 word \<Rightarrow> f32" where
  "pcm16_to_float s = of_int (sint s) / 32768"

definition read_wav_file ::
  "('l, 'c, 'm, 'p) world \<Rightarrow> string \<Rightarrow> f32 list \<Rightarrow> bool \<times> f32 list \<times> ('l, 'c, 'm, 'p) world" where
  "read_wav_file w filename pcmf32 =
     (case files w filename of
        None \<Rightarrow> (False, pcmf32, LOGE (''Failed to open audio file: '' @ filename) w)
      | Some bytes \<Rightarrow>
          let file = \<lparr>unread = bytes, good = True\<rparr>;
              (got, file) = ifstream_read file 44;
              header = store_bytes (map (stack_junk w) [0..<44]) got
          in if header ! 0 \<noteq> CHR ''R'' \<or> header ! 1 \<noteq> CHR ''I''
                \<or> header ! 2 \<noteq> CHR ''F'' \<or> header ! 3 \<noteq> CHR ''F''
             then (False, pcmf32, LOGE ''Not a valid WAV file'' w)
             else
               let data_size = load_u32 header 40;
                   zeros = replicate (2 * (unat data_size div 2)) (CHR 0x00);
                   (got, file) = ifstream_read file (unat data_size);
                   raw = store_bytes zeros got;
                   w = (if length zeros < length got then w\<lparr>heap_overflow := True\<rparr> else w);
                   pcm16 = map (\<lambda>i. load_i16 raw (2 * i)) [0..<unat data_size div 2]
               in (True, map pcm16_to_float pcm16, w))"

subsection \<open>JNI calls and library calls\<close>

text \<open>
  A \<open>jstring\<close> argument is modelled by what \<open>GetStringUTFChars\<close> yields for it: its
  characters, or \<open>None\<close> for NULL.  A \<open>jstring\<close> result is the C string handed to
  \<open>NewStringUTF\<close>.  The float array calls follow the JNI specification: the elements
  come as a pointer into the array or as a copy, and \<open>ReleaseFloatArrayElements\<close> writes a
  copy back unless the mode is \<open>JNI_ABORT\<close>.
\<close>

definition GetArrayLength :: "('l, 'c, 'm, 'p) world \<Rightarrow> jfloatArray \<Rightarrow> nat" where
  "GetArrayLength w a = length (java_arrays w a)"

definition GetFloatArrayElements ::
  "('l, 'c, 'm, 'p) world \<Rightarrow> jfloatArray \<Rightarrow> (f32 list \<times> bool) option" where
  "GetFloatArrayElements w a =
     (case array_access w a of
        Access_fails \<Rightarrow> None
      | Access_pinned \<Rightarrow> Some (java_arrays w a, False)
      | Access_copied \<Rightarrow> Some (java_arrays w a, True))"

definition ReleaseFloatArrayElements ::
  "('l, 'c, 'm, 'p) world \<Rightarrow> jfloatArray \<Rightarrow> f32 list \<Rightarrow> bool \<Rightarrow> release_mode
     \<Rightarrow> ('l, 'c, 'm, 'p) world" where
  "ReleaseFloatArrayElements w a elems is_copy mode =
     (if is_copy \<and> mode = JNI_ABORT then w
      else w\<lparr>java_arrays := (java_arrays w)(a := elems)\<rparr>)"

text \<open>The casts \<open>(jlong)ctx\<close> and \<open>(struct whisper_context * )contextPtr\<close>: zero extension
  to 64 bits, truncation to the pointer width.\<close>

definition jlong_of_ptr :: "'n::len word \<Rightarrow> jlong" where
  "jlong_of_ptr p = ucast p"

definition ptr_of_jlong :: "jlong \<Rightarrow> 'n::len word" where
  "ptr_of_jlong j = ucast j"

definition call_init_from_file ::
  "('l, 'c, 'm, 'p) whisper_api \<Rightarrow> ('l, 'c, 'm, 'p) world \<Rightarrow> string \<Rightarrow> 'c
     \<Rightarrow> 'p \<times> ('l, 'c, 'm, 'p) world" where
  "call_init_from_file L w path cparams =
     (let (ctx, l) = whisper_init_from_file_with_params L (lib w) path cparams
      in (ctx, w\<lparr>lib := l, lib_calls := lib_calls w @ [Call_init_from_file path cparams]\<rparr>))"

definition call_free ::
  "('l, 'c, 'm, 'p) whisper_api \<Rightarrow> ('l, 'c, 'm, 'p) world \<Rightarrow> 'p \<Rightarrow> ('l, 'c, 'm, 'p) world" where
  "call_free L w ctx =
     w\<lparr>lib := whisper_free L (lib w) ctx, lib_calls := lib_calls w @ [Call_free ctx]\<rparr>"

definition call_full ::
  "('l, 'c, 'm, 'p) whisper_api \<Rightarrow> ('l, 'c, 'm, 'p) world \<Rightarrow> 'p \<Rightarrow> 'm whisper_full_params_scheme
     \<Rightarrow> f32 list \<Rightarrow> int \<times> ('l, 'c, 'm, 'p) world" where
  "call_full L w ctx params samples =
     (let (result, l) = whisper_full L (lib w) ctx params samples
      in (result, w\<lparr>lib := l, lib_calls := lib_calls w @ [Call_full ctx params samples]\<rparr>))"

subsection \<open>The bridge functions\<close>

definition initContext ::
  "('l, 'c, 'm, 'n::len word) whisper_api \<Rightarrow> ('l, 'c, 'm, 'n word) world \<Rightarrow> string option
     \<Rightarrow> jlong \<times> ('l, 'c, 'm, 'n word) world" where
  "initContext L w modelPath =
     (case modelPath of
        None \<Rightarrow> (0, LOGE ''Failed to get model path string'' w)
      | Some model_path_chars \<Rightarrow>
          let w = LOGI (''Initializing whisper context from: '' @ model_path_chars) w;
              cparams = whisper_context_default_params L;
              (ctx, w) = call_init_from_file L w model_path_chars cparams
          in if ctx = 0 then (0, LOGE ''Failed to initialize whisper context'' w)
             else (jlong_of_ptr ctx, LOGI ''Whisper context initialized successfully'' w))"

definition freeContext ::
  "('l, 'c, 'm, 'n::len word) whisper_api \<Rightarrow> ('l, 'c, 'm, 'n word) world \<Rightarrow> jlong
     \<Rightarrow> ('l, 'c, 'm, 'n word) world" where
  "freeContext L w contextPtr =
     (if contextPtr = 0 then w
      else let ctx = ptr_of_jlong contextPtr;
               w = call_free L w ctx
           in LOGI ''Whisper context freed'' w)"

text \<open>The segment loop \<open>for (int i = 0; i < n_segments; i++)\<close> of both transcription
  functions, from the value \<open>i\<close> of the counter on.\<close>

function collect_segments ::
  "('l, 'c, 'm, 'p) whisper_api \<Rightarrow> 'l \<Rightarrow> 'p \<Rightarrow> int \<Rightarrow> int \<Rightarrow> string \<Rightarrow> string" where
  "collect_segments L l ctx n_segments i transcription =
     (if i < n_segments
      then let text = whisper_full_get_segment_text L l ctx i;
               transcription = transcription @ text;
               transcription = (if i < n_segments - 1 then transcription @ '' ''
                                else transcription)
           in collect_segments L l ctx n_segments (i + 1) transcription
      else transcription)"
  by pat_completeness auto
termination
  by (relation "measure (\<lambda>(L, l, ctx, n_segments, i, transcription). nat (n_segments - i))") auto

definition transcribe ::
  "('l, 'c, 'm, 'n::len word) whisper_api \<Rightarrow> ('l, 'c, 'm, 'n word) world \<Rightarrow> jlong \<Rightarrow> string option
     \<Rightarrow> string \<times> ('l, 'c, 'm, 'n word) world" where
  "transcribe L w contextPtr audioPath =
     (if contextPtr = 0
      then (''Error: Invalid context'', LOGE ''Invalid context pointer'' w)
      else case audioPath of
        None \<Rightarrow> (''Error: Failed to get audio path'', LOGE ''Failed to get audio path string'' w)
      | Some audio_path_chars \<Rightarrow>
          let w = LOGI (''Transcribing audio file: '' @ audio_path_chars) w;
              (ok, pcmf32, w) = read_wav_file w audio_path_chars []
          in if \<not> ok then (''Error: Failed to read audio file'', w)
             else
               let w = LOGI (''Read '' @ fmt_zu (length pcmf32) @ '' audio samples'') w;
                   ctx = ptr_of_jlong contextPtr;
                   params = whisper_full_default_params L WHISPER_SAMPLING_GREEDY;
                   params = params\<lparr>print_realtime := False, print_progress := False,
                              print_timestamps := False, print_special := False,
                              translate := False, language := ''en'', n_threads := 4,
                              offset_ms := 0, no_context := True, single_segment := False\<rparr>;
                   (result, w) = call_full L w ctx params pcmf32
               in if result \<noteq> 0
                  then (''Error: Transcription failed'',
                        LOGE (''Whisper transcription failed with code: '' @ fmt_d result) w)
                  else
                    let n_segments = whisper_full_n_segments L (lib w) ctx;
                        w = LOGI (''Found '' @ fmt_d n_segments @ '' segments'') w;
                        transcription = collect_segments L (lib w) ctx n_segments 0 [];
                        w = LOGI (''Transcription complete: '' @ transcription) w
                    in (transcription, w))"

definition transcribeFromFloatArray ::
  "('l, 'c, 'm, 'n::len word) whisper_api \<Rightarrow> ('l, 'c, 'm, 'n word) world \<Rightarrow> jlong \<Rightarrow> jfloatArray
     \<Rightarrow> string \<times> ('l, 'c, 'm, 'n word) world" where
  "transcribeFromFloatArray L w contextPtr audioData =
     (if contextPtr = 0
      then (''Error: Invalid context'', LOGE ''Invalid context pointer'' w)
      else
        let len = GetArrayLength w audioData
        in case GetFloatArrayElements w audioData of
          None \<Rightarrow> (''Error: Failed to get audio data'', LOGE ''Failed to get audio data array'' w)
        | Some (audio_data_arr, is_copy) \<Rightarrow>
            let ctx = ptr_of_jlong contextPtr;
                params = whisper_full_default_params L WHISPER_SAMPLING_GREEDY;
                params = params\<lparr>print_realtime := False, print_progress := False,
                           print_timestamps := False, print_special := False,
                           translate := False, language := ''en'', n_threads := 4,
                           offset_ms := 0, no_context := True, single_segment := False\<rparr>;
                (result, w) = call_full L w ctx params (take len audio_data_arr);
                w = ReleaseFloatArrayElements w audioData audio_data_arr is_copy JNI_ABORT
            in if result \<noteq> 0
               then (''Error: Transcription failed'',
                     LOGE (''Whisper transcription failed with code: '' @ fmt_d result) w)
               else
                 let n_segments = whisper_full_n_segments L (lib w) ctx;
                     transcription = collect_segments L (lib w) ctx n_segments 0 []
                 in (transcription, w))"

definition getSystemInfo ::
  "('l, 'c, 'm, 'n::len word) whisper_api \<Rightarrow> ('l, 'c, 'm, 'n word) world \<Rightarrow> string" where
  "getSystemInfo L w = whisper_print_system_info L (lib w)"

subsection \<open>Notions the properties are stated with\<close>

text \<open>The library calls made between two worlds.\<close>

definition made_calls ::
  "('l, 'c, 'm, 'p) world \<Rightarrow> ('l, 'c, 'm, 'p) world \<Rightarrow> ('c, 'm, 'p) lib_call list" where
  "made_calls w w' = drop (length (lib_calls w)) (lib_calls w')"

text \<open>
  The contents of \<open>header\<close> after the first \<open>read\<close> on a file with the given bytes, and
  the contents of \<open>pcm16\<close> after the second \<open>read\<close> on it for a data size \<open>d\<close>.
\<close>

definition wav_header :: "('l, 'c, 'm, 'p) world \<Rightarrow> string \<Rightarrow> string" where
  "wav_header w bytes = store_bytes (map (stack_junk w) [0..<44]) (take 44 bytes)"

definition wav_pcm16 :: "string \<Rightarrow> nat \<Rightarrow> 16 word list" where
  "wav_pcm16 bytes d =
     map (\<lambda>i. load_i16 (store_bytes (replicate (2 * (d div 2)) (CHR 0x00)) (take d (drop 44 bytes)))
                (2 * i))
       [0..<d div 2]"

text \<open>The byte of a file at an offset, \<open>0\<close> past its end: what a sample byte holds that
  the second \<open>read\<close> did not reach (the vector is zero-initialised).\<close>

definition file_byte :: "string \<Rightarrow> nat \<Rightarrow> char" where
  "file_byte bytes k = (if k < length bytes then bytes ! k else CHR 0x00)"

text \<open>Whether the second \<open>read\<close>, for a data size \<open>d\<close>, stores a byte past \<open>pcm16\<close>.\<close>

definition pcm16_overflows :: "string \<Rightarrow> nat \<Rightarrow> bool" where
  "pcm16_overflows bytes d \<longleftrightarrow> odd d \<and> 44 + d \<le> length bytes"

text \<open>The inference parameters both transcription functions configure.\<close>

definition bridge_params ::
  "('l, 'c, 'm, 'p) whisper_api \<Rightarrow> 'm whisper_full_params_scheme" where
  "bridge_params L =
     (whisper_full_default_params L WHISPER_SAMPLING_GREEDY)
       \<lparr>print_realtime := False, print_progress := False, print_timestamps := False,
        print_special := False, translate := False, language := ''en'', n_threads := 4,
        offset_ms := 0, no_context := True, single_segment := False\<rparr>"

text \<open>Texts joined with exactly one space between neighbours and none at the end.\<close>

fun join_with_spaces :: "string list \<Rightarrow> string" where
  "join_with_spaces [] = []"
| "join_with_spaces [t] = t"
| "join_with_spaces (t # u # ts) = t @ '' '' @ join_with_spaces (u # ts)"

text \<open>The segment texts of a context, in index order \<open>0\<close> to \<open>n - 1\<close>.\<close>

definition segment_texts :: "('l, 'c, 'm, 'p) whisper_api \<Rightarrow> 'l \<Rightarrow> 'p \<Rightarrow> string list" where
  "segment_texts L l ctx =
     map (whisper_full_get_segment_text L l ctx) [0..whisper_full_n_segments L l ctx - 1]"

subsection \<open>An example library and world\<close>

text \<open>
  A 48-byte file with a 44-byte header (\<open>data_size = 4\<close>) and the samples \<open>-32768\<close> and
  \<open>32767\<close>; a 44-byte file with \<open>data_size = 0\<close>; an empty file; a file that holds the
  four bytes \<open>RIFF\<close> and nothing else; a text file.
  The stack holds an earlier header where \<open>header\<close> will be: \<open>RIFF\<close> and \<open>data_size = 6\<close>.
\<close>

definition demo_wav :: string where
  "demo_wav = ''RIFF'' @ replicate 36 (CHR 0x00) @ [CHR 0x04, CHR 0x00, CHR 0x00, CHR 0x00]
                @ [CHR 0x00, CHR 0x80, CHR 0xFF, CHR 0x7F]"

definition demo_files :: "string \<Rightarrow> string option" where
  "demo_files name =
     (if name = ''speech.wav'' then Some demo_wav
      else if name = ''silence.wav'' then Some (''RIFF'' @ replicate 40 (CHR 0x00))
      else if name = ''empty.wav'' then Some []
      else if name = ''short.wav'' then Some ''RIFF''
      else if name = ''notes.txt'' then Some ''hello, world''
      else None)"

definition stale_header :: "nat \<Rightarrow> char" where
  "stale_header i = (if i < 4 then ''RIFF'' ! i else if i = 40 then CHR 0x06 else CHR 0x00)"

text \<open>
  A library that loads one model file, fails inference with code \<open>-7\<close> on an empty sample
  buffer, finds no segment in silence and otherwise the two segments \<open>hello\<close> and
  \<open>world\<close>.
\<close>

definition demo_lib :: "(string list, unit, unit, 'n::len word) whisper_api" where
  "demo_lib =
     \<lparr>whisper_context_default_params = (),
      whisper_init_from_file_with_params =
        (\<lambda>l path cparams. (if path = ''ggml-base.bin'' then 4096 else 0, l)),
      whisper_free = (\<lambda>l ctx. []),
      whisper_full_default_params =
        (\<lambda>strategy. \<lparr>print_realtime = True, print_progress = True, print_timestamps = True,
           print_special = True, translate = True, language = ''auto'', n_threads = 2,
           offset_ms = 10, no_context = False, single_segment = True\<rparr>),
      whisper_full =
        (\<lambda>l ctx params samples.
           if samples = [] then (- 7, l)
           else if list_all (\<lambda>x. x = 0) samples then (0, [])
           else (0, [''hello'', ''world''])),
      whisper_full_n_segments = (\<lambda>l ctx. int (length l)),
      whisper_full_get_segment_text = (\<lambda>l ctx i. l ! nat i),
      whisper_print_system_info = (\<lambda>l. ''NEON = 1'')\<rparr>"

text \<open>Array 1 comes as a copy, the empty array 2 and the silent array 4 as pointers into
  the array, any other array not at all.\<close>

definition demo_world :: "(string list, unit, unit, 'n::len word) world" where
  "demo_world =
     \<lparr>lib = [], lib_calls = [], logcat = [], files = demo_files, stack_junk = stale_header,
      java_arrays = (\<lambda>a. if a = 1 then [1 / 2, - 1 / 4] else if a = 4 then [0, 0] else []),
      array_access = (\<lambda>a. if a = 1 then Access_copied
                          else if a = 2 \<or> a = 4 then Access_pinned else Access_fails),
      heap_overflow = False\<rparr>"

text \<open>The example on an ABI with 64-bit pointers and on one with 32-bit pointers.\<close>

abbreviation demo_lib64 :: "(string list, unit, unit, 64 word) whisper_api" where
  "demo_lib64 \<equiv> demo_lib"

abbreviation demo_world64 :: "(string list, unit, unit, 64 word) world" where
  "demo_world64 \<equiv> demo_world"



section \<open>Properties\<close>

subsection \<open>Auxiliary facts\<close>

declare collect_segments.simps [simp del]

lemma LOGI_fields [simp]:
  "lib (LOGI m w) = lib w" "lib_calls (LOGI m w) = lib_calls w"
  "files (LOGI m w) = files w" "stack_junk (LOGI m w) = stack_junk w"
  "java_arrays (LOGI m w) = java_arrays w" "array_access (LOGI m w) = array_access w"
  "heap_overflow (LOGI m w) = heap_overflow w"
  "logcat (LOGI m w) = logcat w @ [(ANDROID_LOG_INFO, m)]"
  by (simp_all add: LOGI_def)

lemma LOGE_fields [simp]:
  "lib (LOGE m w) = lib w" "lib_calls (LOGE m w) = lib_calls w"
  "files (LOGE m w) = files w" "stack_junk (LOGE m w) = stack_junk w"
  "java_arrays (LOGE m w) = java_arrays w" "array_access (LOGE m w) = array_access w"
  "heap_overflow (LOGE m w) = heap_overflow w"
  "logcat (LOGE m w) = logcat w @ [(ANDROID_LOG_ERROR, m)]"
  by (simp_all add: LOGE_def)

lemma call_full_fields [simp]:
  "fst (call_full L w ctx params samples) = fst (whisper_full L (lib w) ctx params samples)"
  "lib (snd (call_full L w ctx params samples)) = snd (whisper_full L (lib w) ctx params samples)"
  "lib_calls (snd (call_full L w ctx params samples)) = lib_calls w @ [Call_full ctx params samples]"
  "logcat (snd (call_full L w ctx params samples)) = logcat w"
  "files (snd (call_full L w ctx params samples)) = files w"
  "stack_junk (snd (call_full L w ctx params samples)) = stack_junk w"
  "java_arrays (snd (call_full L w ctx params samples)) = java_arrays w"
  "array_access (snd (call_full L w ctx params samples)) = array_access w"
  by (simp_all add: call_full_def case_prod_beta)

lemma store_bytes_length [simp]: "length (store_bytes buf got) = length buf"
  by (simp add: store_bytes_def)

lemma store_bytes_nth:
  "i < length buf \<Longrightarrow> store_bytes buf got ! i = (if i < length got then got ! i else buf ! i)"
  by (simp add: store_bytes_def nth_append)

lemma length_wav_header [simp]: "length (wav_header w bytes) = 44"
  by (simp add: wav_header_def)

lemma wav_header_nth:
  "i < 44 \<Longrightarrow> wav_header w bytes ! i = (if i < length bytes then bytes ! i else stack_junk w i)"
  by (simp add: wav_header_def store_bytes_nth)

lemma wav_header_long: "44 \<le> length bytes \<Longrightarrow> wav_header w bytes = take 44 bytes"
  by (simp add: wav_header_def store_bytes_def)

lemma take4_wav_header:
  "4 \<le> length bytes \<Longrightarrow> take 4 (wav_header w bytes) = take 4 bytes"
  by (auto simp: list_eq_iff_nth_eq wav_header_nth)

lemma riff_check:
  "length h = 44 \<Longrightarrow>
     (h ! 0 \<noteq> CHR ''R'' \<or> h ! 1 \<noteq> CHR ''I'' \<or> h ! 2 \<noteq> CHR ''F'' \<or> h ! 3 \<noteq> CHR ''F'')
       \<longleftrightarrow> take 4 h \<noteq> ''RIFF''"
  by (auto simp: list_eq_iff_nth_eq less_Suc_eq numeral_eq_Suc)

lemma first_read:
  "fst (ifstream_read \<lparr>unread = bytes, good = True\<rparr> 44) = take 44 bytes"
  by (simp add: ifstream_read_def)

lemma second_read:
  "fst (ifstream_read (snd (ifstream_read \<lparr>unread = bytes, good = True\<rparr> 44)) d)
     = take d (drop 44 bytes)"
  by (cases "44 \<le> length bytes") (simp_all add: ifstream_read_def Let_def)

lemma read_wav_file_None:
  "files w filename = None \<Longrightarrow>
     read_wav_file w filename pcmf32
       = (False, pcmf32, LOGE (''Failed to open audio file: '' @ filename) w)"
  by (simp add: read_wav_file_def)

lemma second_read_overflow:
  "2 * (d div 2) < length (take d (drop 44 bytes)) \<longleftrightarrow> pcm16_overflows bytes d"
  unfolding pcm16_overflows_def by (cases "44 + d \<le> length bytes") (auto elim: oddE)

lemma read_wav_file_Some:
  assumes "files w filename = Some bytes"
  shows "read_wav_file w filename pcmf32 =
     (if take 4 (wav_header w bytes) = ''RIFF''
      then (True, map pcm16_to_float (wav_pcm16 bytes (unat (load_u32 (wav_header w bytes) 40))),
            if pcm16_overflows bytes (unat (load_u32 (wav_header w bytes) 40))
            then w\<lparr>heap_overflow := True\<rparr> else w)
      else (False, pcmf32, LOGE ''Not a valid WAV file'' w))"
proof -
  have rw: "read_wav_file w filename pcmf32 =
    (let header = wav_header w bytes
     in if header ! 0 \<noteq> CHR ''R'' \<or> header ! 1 \<noteq> CHR ''I''
                \<or> header ! 2 \<noteq> CHR ''F'' \<or> header ! 3 \<noteq> CHR ''F''
        then (False, pcmf32, LOGE ''Not a valid WAV file'' w)
        else (True, map pcm16_to_float (wav_pcm16 bytes (unat (load_u32 header 40))),
              if pcm16_overflows bytes (unat (load_u32 header 40))
              then w\<lparr>heap_overflow := True\<rparr> else w))"
    unfolding read_wav_file_def wav_header_def wav_pcm16_def Let_def case_prod_beta
      first_read second_read length_replicate second_read_overflow
    using assms by simp
  show ?thesis
    unfolding rw Let_def using riff_check [of "wav_header w bytes"] by simp
qed

lemma read_wav_file_fst:
  "fst (read_wav_file w filename pcmf32) \<longleftrightarrow>
     (\<exists>bytes. files w filename = Some bytes \<and> take 4 (wav_header w bytes) = ''RIFF'')"
  by (cases "files w filename") (simp_all add: read_wav_file_None read_wav_file_Some)

lemma read_wav_file_LOGI:
  "fst (read_wav_file (LOGI m w) filename pcmf32) = fst (read_wav_file w filename pcmf32)"
  "fst (snd (read_wav_file (LOGI m w) filename pcmf32)) = fst (snd (read_wav_file w filename pcmf32))"
  by (cases "files w filename"; simp add: read_wav_file_None read_wav_file_Some wav_header_def)+

lemma read_wav_file_fields [simp]:
  "lib (snd (snd (read_wav_file w filename pcmf32))) = lib w"
  "lib_calls (snd (snd (read_wav_file w filename pcmf32))) = lib_calls w"
  "files (snd (snd (read_wav_file w filename pcmf32))) = files w"
  "stack_junk (snd (snd (read_wav_file w filename pcmf32))) = stack_junk w"
  "java_arrays (snd (snd (read_wav_file w filename pcmf32))) = java_arrays w"
  "array_access (snd (snd (read_wav_file w filename pcmf32))) = array_access w"
  by (cases "files w filename"; simp add: read_wav_file_None read_wav_file_Some)+

lemma read_wav_file_ok_world:
  assumes "files w filename = Some bytes" and "fst (read_wav_file w filename pcmf32)"
  shows "snd (snd (read_wav_file w filename pcmf32)) =
           (if pcm16_overflows bytes (unat (load_u32 (wav_header w bytes) 40))
            then w\<lparr>heap_overflow := True\<rparr> else w)"
  using assms by (simp add: read_wav_file_Some split: if_splits)

lemma short_file_no_overflow:
  "length bytes < 44 \<Longrightarrow> \<not> pcm16_overflows bytes d"
  by (simp add: pcm16_overflows_def)

lemma read_wav_file_samples:
  assumes "files w filename = Some bytes" and "fst (read_wav_file w filename pcmf32)"
  shows "fst (snd (read_wav_file w filename pcmf32)) =
           map pcm16_to_float (wav_pcm16 bytes (unat (load_u32 (wav_header w bytes) 40)))"
  using assms by (simp add: read_wav_file_Some split: if_splits)

lemma length_wav_pcm16 [simp]: "length (wav_pcm16 bytes d) = d div 2"
  by (simp add: wav_pcm16_def)

lemma stored_sample_byte:
  assumes "k < 2 * (d div 2)"
  shows "store_bytes (replicate (2 * (d div 2)) (CHR 0x00)) (take d (drop 44 bytes)) ! k
           = file_byte bytes (44 + k)"
proof -
  have kd: "k < d" using assms by linarith
  show ?thesis
  proof (cases "44 + k < length bytes")
    case True
    with kd have "k < length (take d (drop 44 bytes))" by simp
    moreover from True kd have "take d (drop 44 bytes) ! k = bytes ! (44 + k)" by simp
    ultimately show ?thesis
      using assms True by (simp add: store_bytes_nth file_byte_def del: nth_take nth_drop)
  next
    case False
    then have "\<not> k < length (take d (drop 44 bytes))" by auto
    then show ?thesis
      using assms False by (simp add: store_bytes_nth file_byte_def del: length_take length_drop)
  qed
qed

lemma wav_pcm16_nth:
  assumes "i < d div 2"
  shows "wav_pcm16 bytes d ! i
           = of_char (file_byte bytes (44 + 2 * i)) + 256 * of_char (file_byte bytes (44 + 2 * i + 1))"
proof -
  from assms have k: "2 * i < 2 * (d div 2)" "2 * i + 1 < 2 * (d div 2)" by simp_all
  have "wav_pcm16 bytes d ! i
          = load_i16 (store_bytes (replicate (2 * (d div 2)) (CHR 0x00)) (take d (drop 44 bytes)))
              (2 * i)"
    using assms by (simp add: wav_pcm16_def)
  also have "\<dots> = of_char (file_byte bytes (44 + 2 * i))
                   + 256 * of_char (file_byte bytes (44 + (2 * i + 1)))"
    unfolding load_i16_def by (simp only: stored_sample_byte [OF k(1)] stored_sample_byte [OF k(2)])
  finally show ?thesis by (simp add: add.assoc)
qed

lemma read_wav_file_short_no_overflow:
  assumes "files w filename = Some bytes" and "length bytes < 44"
  shows "heap_overflow (snd (snd (read_wav_file w filename pcmf32))) = heap_overflow w"
  using assms by (simp add: read_wav_file_Some short_file_no_overflow)

lemma read_wav_file_overflow:
  assumes "files w filename = Some bytes" and "fst (read_wav_file w filename pcmf32)"
  shows "heap_overflow (snd (snd (read_wav_file w filename pcmf32))) \<longleftrightarrow>
           heap_overflow w \<or> pcm16_overflows bytes (unat (load_u32 (wav_header w bytes) 40))"
  using assms by (simp add: read_wav_file_Some split: if_splits)

lemma load_u32_take: "off + 4 \<le> n \<Longrightarrow> load_u32 (take n buf) off = load_u32 buf off"
  by (simp add: load_u32_def)

lemma pcm16_to_float_range: "- 1 \<le> pcm16_to_float s \<and> pcm16_to_float s < 1"
proof -
  have "- 32768 \<le> sint s" and "sint s < 32768"
    using sint_ge [of s] sint_lt [of s] by simp_all
  then have "(- 32768 :: rat) \<le> of_int (sint s)" and "(of_int (sint s) :: rat) < 32768"
    by linarith+
  then show ?thesis by (simp add: pcm16_to_float_def del: of_int_sint)
qed

lemma pcm16_to_float_minus_one: "pcm16_to_float s = - 1 \<longleftrightarrow> s = - 32768"
proof -
  have "pcm16_to_float s = - 1 \<longleftrightarrow> (of_int (sint s) :: rat) = of_int (- 32768)"
    by (simp add: pcm16_to_float_def divide_eq_eq del: of_int_sint)
  also have "\<dots> \<longleftrightarrow> sint s = - 32768" by (simp only: of_int_eq_iff)
  also have "\<dots> \<longleftrightarrow> sint s = sint (- 32768 :: 16 word)" by simp
  also have "\<dots> \<longleftrightarrow> s = - 32768" by (auto intro: signed_word_eqI)
  finally show ?thesis .
qed

lemma pcm16_to_float_binary32:
  "\<exists>m :: int. \<bar>m\<bar> < 2 ^ 24 \<and> pcm16_to_float s = of_int m / 2 ^ 15"
proof -
  have "- 32768 \<le> sint s" and "sint s < 32768"
    using sint_ge [of s] sint_lt [of s] by simp_all
  then have "\<bar>sint s\<bar> < 2 ^ 24" by simp
  moreover have "pcm16_to_float s = of_int (sint s) / 2 ^ 15"
    by (simp add: pcm16_to_float_def del: of_int_sint)
  ultimately show ?thesis by blast
qed

lemma transcribe_lib_calls:
  "made_calls w (snd (transcribe L w h p)) =
     (case p of None \<Rightarrow> [] 
      | Some path \<Rightarrow> if h \<noteq> 0 \<and> fst (read_wav_file w path [])
          then [Call_full (ptr_of_jlong h) (bridge_params L) (fst (snd (read_wav_file w path [])))]
          else [])"
  by (simp add: transcribe_def made_calls_def Let_def case_prod_beta read_wav_file_LOGI
      bridge_params_def split: option.splits)


lemma tffa_lib_calls:
  "made_calls w (snd (transcribeFromFloatArray L w h a)) =
     (if h \<noteq> 0 \<and> array_access w a \<noteq> Access_fails
      then [Call_full (ptr_of_jlong h) (bridge_params L) (java_arrays w a)] else [])"
  by (cases "array_access w a")
    (simp_all add: transcribeFromFloatArray_def made_calls_def Let_def case_prod_beta bridge_params_def
      GetFloatArrayElements_def GetArrayLength_def ReleaseFloatArrayElements_def)

lemma transcribe_result:
  "fst (transcribe L w h p) =
     (if h = 0 then ''Error: Invalid context''
      else case p of
        None \<Rightarrow> ''Error: Failed to get audio path''
      | Some path \<Rightarrow>
          if \<not> fst (read_wav_file w path []) then ''Error: Failed to read audio file''
          else
            let ctx = ptr_of_jlong h;
                r = whisper_full L (lib w) ctx (bridge_params L) (fst (snd (read_wav_file w path [])))
            in if fst r \<noteq> 0 then ''Error: Transcription failed''
               else collect_segments L (snd r) ctx (whisper_full_n_segments L (snd r) ctx) 0 [])"
  by (simp add: transcribe_def Let_def case_prod_beta bridge_params_def read_wav_file_LOGI
      split: option.splits)

lemma tffa_result:
  "fst (transcribeFromFloatArray L w h a) =
     (if h = 0 then ''Error: Invalid context''
      else if array_access w a = Access_fails then ''Error: Failed to get audio data''
      else
        let ctx = ptr_of_jlong h;
            r = whisper_full L (lib w) ctx (bridge_params L) (java_arrays w a)
        in if fst r \<noteq> 0 then ''Error: Transcription failed''
           else collect_segments L (snd r) ctx (whisper_full_n_segments L (snd r) ctx) 0 [])"
  by (cases "array_access w a")
    (simp_all add: transcribeFromFloatArray_def Let_def case_prod_beta bridge_params_def
      GetFloatArrayElements_def GetArrayLength_def ReleaseFloatArrayElements_def)

lemma transcribe_lib:
  "lib (snd (transcribe L w h p)) =
     (case p of None \<Rightarrow> lib w
      | Some path \<Rightarrow>
          if h \<noteq> 0 \<and> fst (read_wav_file w path [])
          then snd (whisper_full L (lib w) (ptr_of_jlong h) (bridge_params L)
                      (fst (snd (read_wav_file w path []))))
          else lib w)"
  by (simp add: transcribe_def Let_def case_prod_beta bridge_params_def read_wav_file_LOGI
      split: option.splits)

lemma tffa_lib:
  "lib (snd (transcribeFromFloatArray L w h a)) =
     (if h \<noteq> 0 \<and> array_access w a \<noteq> Access_fails
      then snd (whisper_full L (lib w) (ptr_of_jlong h) (bridge_params L) (java_arrays w a))
      else lib w)"
  by (cases "array_access w a")
    (simp_all add: transcribeFromFloatArray_def Let_def case_prod_beta bridge_params_def
      GetFloatArrayElements_def GetArrayLength_def ReleaseFloatArrayElements_def)

lemma join_with_spaces_Cons:
  "join_with_spaces (t # ts) = (if ts = [] then t else t @ '' '' @ join_with_spaces ts)"
  by (cases ts) simp_all

lemma collect_segments_join:
  "collect_segments L l ctx n i acc =
     acc @ join_with_spaces (map (whisper_full_get_segment_text L l ctx) [i..n - 1])"
proof (induction L l ctx n i acc rule: collect_segments.induct)
  case (1 L l ctx n i acc)
  show ?case
  proof (cases "i < n")
    case False
    then show ?thesis by (simp add: collect_segments.simps [of L l ctx n i acc])
  next
    case True
    then have up: "[i..n - 1] = i # [i + 1..n - 1]"
      by (simp add: upto_rec1)
    have emp: "[i + 1..n - 1] = [] \<longleftrightarrow> \<not> i < n - 1"
      by auto
    from True 1 show ?thesis
      by (simp add: collect_segments.simps [of L l ctx n i acc] Let_def up
          join_with_spaces_Cons emp)
  qed
qed



lemma transcribe_call_fullD:
  assumes "Call_full ctx params samples \<in> set (made_calls w (snd (transcribe L w h p)))"
  shows "\<exists>path. p = Some path \<and> h \<noteq> 0 \<and> fst (read_wav_file w path []) \<and> ctx = ptr_of_jlong h
           \<and> params = bridge_params L \<and> samples = fst (snd (read_wav_file w path []))"
  using assms by (auto simp: transcribe_lib_calls split: option.splits if_splits)

lemma tffa_call_fullD:
  assumes "Call_full ctx params samples \<in> set (made_calls w (snd (transcribeFromFloatArray L w h a)))"
  shows "h \<noteq> 0 \<and> array_access w a \<noteq> Access_fails \<and> ctx = ptr_of_jlong h
           \<and> params = bridge_params L \<and> samples = java_arrays w a"
  using assms by (auto simp: tffa_lib_calls split: if_splits)

lemma transcribe_failed_logcat:
  assumes "h \<noteq> 0" and "fst (read_wav_file w path [])"
    and "fst (whisper_full L (lib w) (ptr_of_jlong h) (bridge_params L)
                (fst (snd (read_wav_file w path [])))) = code"
    and "code \<noteq> 0"
  shows "last (logcat (snd (transcribe L w h (Some path))))
           = (ANDROID_LOG_ERROR, ''Whisper transcription failed with code: '' @ fmt_d code)"
  using assms
  by (simp add: transcribe_def Let_def case_prod_beta read_wav_file_LOGI bridge_params_def)

lemma tffa_failed_logcat:
  assumes "h \<noteq> 0" and "array_access w a \<noteq> Access_fails"
    and "fst (whisper_full L (lib w) (ptr_of_jlong h) (bridge_params L) (java_arrays w a)) = code"
    and "code \<noteq> 0"
  shows "last (logcat (snd (transcribeFromFloatArray L w h a)))
           = (ANDROID_LOG_ERROR, ''Whisper transcription failed with code: '' @ fmt_d code)"
  using assms
  by (cases "array_access w a")
    (simp_all add: transcribeFromFloatArray_def Let_def case_prod_beta bridge_params_def
      GetFloatArrayElements_def GetArrayLength_def ReleaseFloatArrayElements_def)

lemma tffa_frame:
  "snd (transcribeFromFloatArray L w h a) =
     w\<lparr>lib := lib (snd (transcribeFromFloatArray L w h a)),
       lib_calls := lib_calls (snd (transcribeFromFloatArray L w h a)),
       logcat := logcat (snd (transcribeFromFloatArray L w h a))\<rparr>"
  by (cases "array_access w a")
    (simp_all add: transcribeFromFloatArray_def Let_def case_prod_beta call_full_def LOGE_def
      GetFloatArrayElements_def GetArrayLength_def ReleaseFloatArrayElements_def)


lemma initContext_result:
  "fst (initContext L w mp) =
     (case mp of None \<Rightarrow> 0
      | Some path \<Rightarrow>
          let ctx = fst (whisper_init_from_file_with_params L (lib w) path
                           (whisper_context_default_params L))
          in if ctx = 0 then 0 else jlong_of_ptr ctx)"
  by (simp add: initContext_def call_init_from_file_def Let_def case_prod_beta split: option.splits)

subsection \<open>The claims\<close>

text \<open>
  C1 (the reader succeeds exactly when the file opens and its first four bytes are
  \<open>RIFF\<close>): the result of the header \<open>read\<close> is never checked, so on an empty file the
  magic check reads the four uninitialised bytes of \<open>header\<close>, and the file is accepted
  exactly when those happen to hold \<open>RIFF\<close>.  No byte is stored past \<open>pcm16\<close> on such a
  file (\<open>read_wav_file_short_no_overflow\<close>).  On files of at least four bytes the magic
  check alone decides the verdict (\<open>read_wav_file_accepts_iff_riff\<close>,
  \<open>read_wav_file_unopenable\<close>), in runs that keep \<open>heap_overflow\<close> unset.
\<close>

theorem read_wav_file_empty_file:
  "files w filename = Some [] \<Longrightarrow>
     fst (read_wav_file w filename pcmf32) \<longleftrightarrow> map (stack_junk w) [0..<4] = ''RIFF''"
proof -
  assume f: "files w filename = Some []"
  have "take 4 (wav_header w []) = map (stack_junk w) [0..<4]"
    by (simp add: list_eq_iff_nth_eq wav_header_nth)
  with f show ?thesis by (simp add: read_wav_file_fst)
qed

text \<open>An empty file, read while the stack still holds an earlier header, is accepted.\<close>

theorem read_wav_file_empty_file_witness:
  "files demo_world64 ''empty.wav'' = Some []
   \<and> fst (read_wav_file demo_world64 ''empty.wav'' [])"
proof -
  let ?w = "demo_world64"
  have f: "files ?w ''empty.wav'' = Some []" by (simp add: demo_world_def demo_files_def)
  have j: "map (stack_junk ?w) [0..<4] = ''RIFF''" by code_simp
  from read_wav_file_empty_file [OF f, of "[]"] j f show ?thesis by simp
qed

lemma read_wav_file_unopenable:
  "files w filename = None \<Longrightarrow> \<not> fst (read_wav_file w filename pcmf32)"
  by (simp add: read_wav_file_None)

lemma read_wav_file_accepts_iff_riff:
  "files w filename = Some bytes \<Longrightarrow> 4 \<le> length bytes \<Longrightarrow>
     fst (read_wav_file w filename pcmf32) \<longleftrightarrow> take 4 bytes = ''RIFF''"
  by (simp add: read_wav_file_fst take4_wav_header)

text \<open>
  C4 (the number of samples of an accepted input is half the data size stored at bytes
  40 to 43 of the file): a file that holds only the four bytes \<open>RIFF\<close> is accepted, and
  its number of samples is half of what the uninitialised bytes 40 to 43 of \<open>header\<close>
  hold.  No byte is stored past \<open>pcm16\<close> on such a file.  On files of at least 44 bytes
  the count is that of the claim (\<open>read_wav_file_sample_count\<close>,
  \<open>read_wav_file_sample_value\<close>), in runs that keep \<open>heap_overflow\<close> unset; which runs
  set it is \<open>read_wav_file_overflow\<close>.
\<close>

theorem read_wav_file_short_file:
  "files w filename = Some ''RIFF'' \<Longrightarrow>
     fst (read_wav_file w filename pcmf32)
     \<and> length (fst (snd (read_wav_file w filename pcmf32)))
         = unat (load_u32 (map (stack_junk w) [0..<44]) 40) div 2"
proof -
  assume f: "files w filename = Some ''RIFF''"
  have ok: "fst (read_wav_file w filename pcmf32)"
    using f by (simp add: read_wav_file_accepts_iff_riff)
  have "load_u32 (wav_header w ''RIFF'') 40 = load_u32 (map (stack_junk w) [0..<44]) 40"
    by (simp add: load_u32_def wav_header_nth)
  with ok read_wav_file_samples [OF f ok] show ?thesis by simp
qed

text \<open>The four-byte file yields three samples when the stale header says \<open>data_size = 6\<close>.\<close>

theorem read_wav_file_short_file_witness:
  "files demo_world64 ''short.wav'' = Some ''RIFF''
   \<and> fst (read_wav_file demo_world64 ''short.wav'' [])
   \<and> length (fst (snd (read_wav_file demo_world64
                          ''short.wav'' []))) = 3"
proof -
  let ?w = "demo_world64"
  have f: "files ?w ''short.wav'' = Some ''RIFF''" by (simp add: demo_world_def demo_files_def)
  have j: "unat (load_u32 (map (stack_junk ?w) [0..<44]) 40) div 2 = 3" by code_simp
  from read_wav_file_short_file [OF f, of "[]"] j f show ?thesis by simp
qed

lemma read_wav_file_sample_count:
  assumes "files w filename = Some bytes" and "44 \<le> length bytes"
    and "fst (read_wav_file w filename pcmf32)"
  shows "length (fst (snd (read_wav_file w filename pcmf32))) = unat (load_u32 bytes 40) div 2"
  using assms by (simp add: read_wav_file_samples wav_header_long load_u32_take)

lemma read_wav_file_sample_value:
  assumes "files w filename = Some bytes" and "44 \<le> length bytes"
    and "fst (read_wav_file w filename pcmf32)"
    and "2 * i + 1 < unat (load_u32 bytes 40)" and "44 + 2 * i + 1 < length bytes"
  shows "fst (snd (read_wav_file w filename pcmf32)) ! i
           = pcm16_to_float (load_i16 bytes (44 + 2 * i))"
proof -
  let ?d = "unat (load_u32 bytes 40)"
  have i: "i < ?d div 2" using assms(4) by simp
  let ?got = "take ?d (drop 44 bytes)"
  have len: "2 * i < length ?got" "2 * i + 1 < length ?got" "2 * i + 1 < 2 * (?d div 2)"
    using assms(4,5) i by simp_all
  have "?got ! (2 * i) = bytes ! (44 + 2 * i)" "?got ! (2 * i + 1) = bytes ! (44 + 2 * i + 1)"
    using assms(4,5) by simp_all
  with len have "wav_pcm16 bytes ?d ! i = load_i16 bytes (44 + 2 * i)"
    using i by (simp add: wav_pcm16_def load_i16_def store_bytes_nth del: nth_take nth_drop)
  with assms(1-3) i show ?thesis
    by (simp add: read_wav_file_samples wav_header_long load_u32_take)
qed

text \<open>
  C5: the samples \<open>transcribe\<close> passes to the inference call are those \<open>read_wav_file\<close>
  produced.  There are \<open>data_size / 2\<close> of them; the sample at index \<open>i\<close> is \<open>s / 32768\<close>
  for the 16-bit sample \<open>s\<close> read, the little-endian \<open>int16_t\<close> at the bytes \<open>44 + 2 i\<close> and
  \<open>44 + 2 i + 1\<close> of the file (a byte past the end of the file counts as 0); each lies
  in the interval from \<open>-1\<close> (attained exactly for \<open>s = -32768\<close>) to below \<open>1\<close>.
\<close>

theorem converted_samples_normalized:
  assumes "Call_full ctx params samples
             \<in> set (made_calls w (snd (transcribe L w contextPtr (Some path))))"
  shows "\<exists>bytes (pcm16 :: 16 word list).
       files w path = Some bytes
     \<and> samples = fst (snd (read_wav_file w path []))
     \<and> length pcm16 = unat (load_u32 (wav_header w bytes) 40) div 2
     \<and> (\<forall>i < length pcm16.
           pcm16 ! i = of_char (file_byte bytes (44 + 2 * i))
                        + 256 * of_char (file_byte bytes (44 + 2 * i + 1)))
     \<and> samples = map (\<lambda>s. of_int (sint s) / 32768) pcm16
     \<and> (\<forall>s \<in> set pcm16. - 1 \<le> (of_int (sint s) / 32768 :: rat)
           \<and> (of_int (sint s) / 32768 :: rat) < 1
           \<and> ((of_int (sint s) / 32768 :: rat) = - 1 \<longleftrightarrow> s = - 32768))"
proof -
  from transcribe_call_fullD [OF assms]
  have ok: "fst (read_wav_file w path [])" and s: "samples = fst (snd (read_wav_file w path []))"
    by simp_all
  from ok obtain bytes where f: "files w path = Some bytes"
    by (auto simp: read_wav_file_fst)
  define pcm16 where "pcm16 = wav_pcm16 bytes (unat (load_u32 (wav_header w bytes) 40))"
  have conv: "pcm16_to_float = (\<lambda>s. of_int (sint s) / 32768)"
    by (rule ext) (simp add: pcm16_to_float_def)
  have len: "length pcm16 = unat (load_u32 (wav_header w bytes) 40) div 2"
    by (simp add: pcm16_def)
  have nth: "\<forall>i < length pcm16.
           pcm16 ! i = of_char (file_byte bytes (44 + 2 * i))
                        + 256 * of_char (file_byte bytes (44 + 2 * i + 1))"
  proof (intro allI impI)
    fix i assume "i < length pcm16"
    then have "i < unat (load_u32 (wav_header w bytes) 40) div 2" by (simp only: len)
    then show "pcm16 ! i = of_char (file_byte bytes (44 + 2 * i))
                        + 256 * of_char (file_byte bytes (44 + 2 * i + 1))"
      unfolding pcm16_def by (rule wav_pcm16_nth)
  qed
  have m: "samples = map (\<lambda>s. of_int (sint s) / 32768) pcm16"
    using read_wav_file_samples [OF f ok] s by (simp only: pcm16_def conv)
  have r: "\<forall>s \<in> set pcm16. - 1 \<le> (of_int (sint s) / 32768 :: rat)
                 \<and> (of_int (sint s) / 32768 :: rat) < 1
                 \<and> ((of_int (sint s) / 32768 :: rat) = - 1 \<longleftrightarrow> s = - 32768)"
    using pcm16_to_float_range pcm16_to_float_minus_one by (simp only: conv) blast
  from f s len nth m r show ?thesis
    by (intro exI [of _ bytes] exI [of _ pcm16] conjI)
qed

text \<open>The example file's bytes \<open>00 80\<close> and \<open>FF 7F\<close> at offsets 44 to 47, the samples
  \<open>-32768\<close> and \<open>32767\<close>, reach the inference call as \<open>-1\<close> and \<open>32767 / 32768\<close>.\<close>

theorem converted_samples_normalized_witness:
  "Call_full 4096 (bridge_params demo_lib64) [- 1, 32767 / 32768]
     \<in> set (made_calls demo_world64
              (snd (transcribe demo_lib64 demo_world64 4096 (Some ''speech.wav''))))
   \<and> files demo_world64 ''speech.wav'' = Some demo_wav
   \<and> unat (load_u32 (wav_header demo_world64 demo_wav) 40) div 2 = 2
   \<and> (of_char (file_byte demo_wav 44) + 256 * of_char (file_byte demo_wav 45) :: 16 word)
       = - 32768
   \<and> (of_char (file_byte demo_wav 46) + 256 * of_char (file_byte demo_wav 47) :: 16 word)
       = 32767
   \<and> [- 1, 32767 / 32768] = fst (snd (read_wav_file demo_world64 ''speech.wav'' []))"
proof -
  have h: "Call_full 4096 (bridge_params demo_lib64) [- 1, 32767 / 32768]
     \<in> set (made_calls demo_world64
              (snd (transcribe demo_lib64 demo_world64 4096 (Some ''speech.wav''))))"
    by code_simp
  have f: "files demo_world64 ''speech.wav'' = Some demo_wav"
    by (simp add: demo_world_def demo_files_def)
  have d: "unat (load_u32 (wav_header demo_world64 demo_wav) 40) div 2 = 2"
    by code_simp
  have s0: "(of_char (file_byte demo_wav 44) + 256 * of_char (file_byte demo_wav 45) :: 16 word)
       = - 32768"
    by code_simp
  have s1: "(of_char (file_byte demo_wav 46) + 256 * of_char (file_byte demo_wav 47) :: 16 word)
       = 32767"
    by code_simp
  from converted_samples_normalized [OF h]
  have "[- 1, 32767 / 32768] = fst (snd (read_wav_file demo_world64 ''speech.wav'' []))"
    by blast
  with h f d s0 s1 show ?thesis by (intro conjI)
qed

lemma bridge_params_fields:
  "n_threads (bridge_params L) = 4" "translate (bridge_params L) = False"
  "language (bridge_params L) = ''en''" "offset_ms (bridge_params L) = 0"
  "no_context (bridge_params L) = True" "single_segment (bridge_params L) = False"
  "print_realtime (bridge_params L) = False" "print_progress (bridge_params L) = False"
  "print_timestamps (bridge_params L) = False" "print_special (bridge_params L) = False"
  "whisper_full_params.more (bridge_params L)
     = whisper_full_params.more (whisper_full_default_params L WHISPER_SAMPLING_GREEDY)"
  by (simp_all add: bridge_params_def)

text \<open>
  C6: every inference call of \<open>transcribe\<close> and of \<open>transcribeFromFloatArray\<close> gets the
  library's default greedy parameters with the thread count set to 4, translation off,
  language \<open>en\<close>, offset 0, \<open>no_context\<close> on, \<open>single_segment\<close> off and the four print
  flags off; every other field is the default's.
\<close>

theorem inference_params_fixed:
  assumes "Call_full ctx params samples \<in> set (made_calls w (snd (transcribe L w h p)))
         \<or> Call_full ctx params samples
             \<in> set (made_calls w (snd (transcribeFromFloatArray L w h a)))"
  shows "n_threads params = 4 \<and> translate params = False \<and> language params = ''en''
     \<and> offset_ms params = 0 \<and> no_context params = True \<and> single_segment params = False
     \<and> print_realtime params = False \<and> print_progress params = False
     \<and> print_timestamps params = False \<and> print_special params = False
     \<and> whisper_full_params.more params
          = whisper_full_params.more (whisper_full_default_params L WHISPER_SAMPLING_GREEDY)"
proof -
  from assms have "params = bridge_params L"
    using transcribe_call_fullD tffa_call_fullD by blast
  then show ?thesis by (simp only: bridge_params_fields simp_thms)
qed

text \<open>The example library's defaults ask for 2 threads; the call gets 4.\<close>

theorem inference_params_fixed_witness:
  "Call_full 4096 (bridge_params demo_lib64) [1 / 2, - 1 / 4]
     \<in> set (made_calls demo_world64 (snd (transcribeFromFloatArray demo_lib64 demo_world64 4096 1)))
   \<and> Call_full 4096 (bridge_params demo_lib64) [- 1, 32767 / 32768]
     \<in> set (made_calls demo_world64
              (snd (transcribe demo_lib64 demo_world64 4096 (Some ''speech.wav''))))
   \<and> n_threads (bridge_params demo_lib64) = 4
   \<and> language (bridge_params demo_lib64) = ''en''
   \<and> n_threads (whisper_full_default_params demo_lib64 WHISPER_SAMPLING_GREEDY) = 2"
proof -
  let ?w = "demo_world64"
  have h: "Call_full 4096 (bridge_params demo_lib64) [1 / 2, - 1 / 4]
     \<in> set (made_calls ?w (snd (transcribeFromFloatArray demo_lib64 ?w 4096 1)))"
    by code_simp
  have g: "Call_full 4096 (bridge_params demo_lib64) [- 1, 32767 / 32768]
     \<in> set (made_calls ?w (snd (transcribe demo_lib64 ?w 4096 (Some ''speech.wav''))))"
    by code_simp
  have d: "n_threads (whisper_full_default_params demo_lib64 WHISPER_SAMPLING_GREEDY) = 2"
    by (simp add: demo_lib_def)
  from inference_params_fixed [of _ _ _ ?w demo_lib64 4096 None 1, OF disjI2, OF h]
    inference_params_fixed [of _ _ _ ?w demo_lib64 4096 "Some ''speech.wav''" 1, OF disjI1, OF g]
    h g d
  show ?thesis by blast
qed

text \<open>
  C7: \<open>transcribeFromFloatArray\<close> leaves every Java array as it was; it changes nothing
  but the library's state, the record of library calls and the log; and it makes at most
  one library call, the inference call on the array's elements.
\<close>

theorem float_array_unchanged:
  "java_arrays (snd (transcribeFromFloatArray L w h a)) = java_arrays w
   \<and> snd (transcribeFromFloatArray L w h a)
       = w\<lparr>lib := lib (snd (transcribeFromFloatArray L w h a)),
           lib_calls := lib_calls (snd (transcribeFromFloatArray L w h a)),
           logcat := logcat (snd (transcribeFromFloatArray L w h a))\<rparr>
   \<and> (made_calls w (snd (transcribeFromFloatArray L w h a)) = []
      \<or> (\<exists>params. made_calls w (snd (transcribeFromFloatArray L w h a))
            = [Call_full (ptr_of_jlong h) params (java_arrays w a)]))"
proof -
  let ?w' = "snd (transcribeFromFloatArray L w h a)"
  have fr: "?w' = w\<lparr>lib := lib ?w', lib_calls := lib_calls ?w', logcat := logcat ?w'\<rparr>"
    by (rule tffa_frame)
  have "java_arrays ?w' = java_arrays (w\<lparr>lib := lib ?w', lib_calls := lib_calls ?w', logcat := logcat ?w'\<rparr>)"
    using fr by simp
  then have ja: "java_arrays ?w' = java_arrays w" by simp
  have mc: "made_calls w ?w' = []
      \<or> (\<exists>params. made_calls w ?w' = [Call_full (ptr_of_jlong h) params (java_arrays w a)])"
    by (simp add: tffa_lib_calls)
  from ja fr mc show ?thesis by (intro conjI)
qed



text \<open>
  C9: \<open>freeContext\<close> on the handle 0 changes nothing and calls nothing, and 0 is what a
  failed \<open>initContext\<close> returns (the path string is unobtainable, or the library returns
  NULL).
\<close>

theorem freeContext_null_noop:
  "freeContext L w 0 = w
   \<and> made_calls w (freeContext L w 0) = []
   \<and> fst (initContext L v None) = 0
   \<and> (fst (whisper_init_from_file_with_params L (lib v) path (whisper_context_default_params L)) = 0
        \<longrightarrow> fst (initContext L v (Some path)) = 0)"
  by (simp add: freeContext_def made_calls_def initContext_result)

text \<open>A model file the example library cannot load.\<close>

theorem freeContext_null_noop_witness:
  "fst (whisper_init_from_file_with_params
          demo_lib64 (lib demo_world64)
          ''missing.bin'' (whisper_context_default_params demo_lib64)) = 0
   \<and> fst (initContext demo_lib64 demo_world64
            (Some ''missing.bin'')) = 0
   \<and> freeContext demo_lib64 demo_world64 0
       = demo_world64"
proof -
  let ?L = "demo_lib64"
  let ?w = "demo_world64"
  have h: "fst (whisper_init_from_file_with_params ?L (lib ?w) ''missing.bin''
                  (whisper_context_default_params ?L)) = 0"
    by (simp add: demo_lib_def)
  from freeContext_null_noop [of ?L ?w ?w "''missing.bin''"] h show ?thesis by blast
qed

text \<open>
  C10: when the inference call returns 0, the string returned is the texts of the
  segments \<open>0\<close> to \<open>n - 1\<close> of the context after that call, joined with single spaces;
  with no segment it is the empty string, which does not start with \<open>Error: \<close>.
\<close>

theorem transcription_joins_segments:
  assumes "r = transcribe L w h p \<or> r = transcribeFromFloatArray L w h a"
    and "Call_full ctx params samples \<in> set (made_calls w (snd r))"
    and "fst (whisper_full L (lib w) ctx params samples) = 0"
  shows "lib (snd r) = snd (whisper_full L (lib w) ctx params samples)
     \<and> fst r = join_with_spaces (segment_texts L (lib (snd r)) ctx)
     \<and> (whisper_full_n_segments L (lib (snd r)) ctx = 0 \<longrightarrow>
          fst r = [] \<and> \<not> prefix ''Error: '' (fst r))"
proof -
  let ?l = "snd (whisper_full L (lib w) ctx params samples)"
  have main: "lib (snd r) = ?l
      \<and> fst r = collect_segments L ?l ctx (whisper_full_n_segments L ?l ctx) 0 []"
    using assms(1)
  proof
    assume r: "r = transcribe L w h p"
    with assms(2) transcribe_call_fullD [of ctx params samples w L h p]
    obtain path where "p = Some path" "h \<noteq> 0" "fst (read_wav_file w path [])"
      "ctx = ptr_of_jlong h" "params = bridge_params L"
      "samples = fst (snd (read_wav_file w path []))"
      by blast
    with assms(3) r show ?thesis
      by (simp add: transcribe_result transcribe_lib Let_def)
  next
    assume r: "r = transcribeFromFloatArray L w h a"
    with assms(2) tffa_call_fullD [of ctx params samples w L h a]
    have "h \<noteq> 0" "array_access w a \<noteq> Access_fails" "ctx = ptr_of_jlong h"
      "params = bridge_params L" "samples = java_arrays w a"
      by simp_all
    with assms(3) r show ?thesis
      by (simp add: tffa_result tffa_lib Let_def)
  qed
  then have j: "fst r = join_with_spaces (segment_texts L (lib (snd r)) ctx)"
    by (simp add: collect_segments_join segment_texts_def)
  have "whisper_full_n_segments L (lib (snd r)) ctx = 0 \<longrightarrow> fst r = []"
    using j by (simp add: segment_texts_def)
  with main j show ?thesis by auto
qed

text \<open>The example library's two segments come back as \<open>hello world\<close>.\<close>

theorem transcription_joins_segments_witness:
  "Call_full 4096 (bridge_params demo_lib64) [- 1, 32767 / 32768]
     \<in> set (made_calls demo_world64
              (snd (transcribe demo_lib64 demo_world64 4096 (Some ''speech.wav''))))
   \<and> fst (whisper_full demo_lib64 (lib demo_world64) 4096 (bridge_params demo_lib64)
            [- 1, 32767 / 32768]) = 0
   \<and> fst (transcribe demo_lib64 demo_world64 4096 (Some ''speech.wav'')) = ''hello world''
   \<and> Call_full 4096 (bridge_params demo_lib64) [0, 0]
     \<in> set (made_calls demo_world64 (snd (transcribeFromFloatArray demo_lib64 demo_world64 4096 4)))
   \<and> fst (whisper_full demo_lib64 (lib demo_world64) 4096 (bridge_params demo_lib64) [0, 0]) = 0
   \<and> whisper_full_n_segments demo_lib64
        (lib (snd (transcribeFromFloatArray demo_lib64 demo_world64 4096 4))) 4096 = 0
   \<and> fst (transcribeFromFloatArray demo_lib64 demo_world64 4096 4) = []
   \<and> \<not> prefix ''Error: '' (fst (transcribeFromFloatArray demo_lib64 demo_world64 4096 4))"
proof -
  let ?L = "demo_lib64"
  let ?w = "demo_world64"
  let ?r = "transcribe ?L ?w 4096 (Some ''speech.wav'')"
  let ?q = "transcribeFromFloatArray ?L ?w 4096 4"
  have c: "Call_full 4096 (bridge_params ?L) [- 1, 32767 / 32768]
             \<in> set (made_calls ?w (snd ?r))"
    by code_simp
  have z: "fst (whisper_full ?L (lib ?w) 4096 (bridge_params ?L) [- 1, 32767 / 32768]) = 0"
    by (simp add: demo_lib_def)
  have l: "snd (whisper_full ?L (lib ?w) 4096 (bridge_params ?L) [- 1, 32767 / 32768])
             = [''hello'', ''world'']"
    by (simp add: demo_lib_def)
  have s: "join_with_spaces (segment_texts ?L [''hello'', ''world''] 4096) = ''hello world''"
    by code_simp
  from transcription_joins_segments [of ?r ?L ?w 4096 "Some ''speech.wav''" 0, OF disjI1 c z,
      OF refl]
  have r: "fst ?r = ''hello world''" by (simp only: l s)
  have c': "Call_full 4096 (bridge_params ?L) [0, 0] \<in> set (made_calls ?w (snd ?q))"
    by code_simp
  have z': "fst (whisper_full ?L (lib ?w) 4096 (bridge_params ?L) [0, 0]) = 0"
    by (simp add: demo_lib_def)
  have n': "whisper_full_n_segments ?L (lib (snd ?q)) 4096 = 0"
    by code_simp
  from transcription_joins_segments [of ?q ?L ?w 4096 None 4, OF disjI2 c' z', OF refl] n'
  have q: "fst ?q = [] \<and> \<not> prefix ''Error: '' (fst ?q)" by blast
  from c z r c' z' n' q show ?thesis by blast
qed

lemma failed_inference_result:
  assumes "r = transcribe L w h p \<or> r = transcribeFromFloatArray L w h a"
    and "Call_full ctx params samples \<in> set (made_calls w (snd r))"
    and "fst (whisper_full L (lib w) ctx params samples) = code"
    and "code \<noteq> 0"
  shows "fst r = ''Error: Transcription failed''"
    and "last (logcat (snd r))
           = (ANDROID_LOG_ERROR, ''Whisper transcription failed with code: '' @ fmt_d code)"
proof -
  have "fst r = ''Error: Transcription failed''
      \<and> last (logcat (snd r))
           = (ANDROID_LOG_ERROR, ''Whisper transcription failed with code: '' @ fmt_d code)"
    using assms(1)
  proof
    assume r: "r = transcribe L w h p"
    with assms(2) transcribe_call_fullD [of ctx params samples w L h p]
    obtain path where c: "p = Some path" "h \<noteq> 0" "fst (read_wav_file w path [])"
      "ctx = ptr_of_jlong h" "params = bridge_params L"
      "samples = fst (snd (read_wav_file w path []))"
      by blast
    with assms(3,4) r have "fst r = ''Error: Transcription failed''"
      by (simp add: transcribe_result Let_def)
    moreover from c assms(3,4) r have "last (logcat (snd r))
           = (ANDROID_LOG_ERROR, ''Whisper transcription failed with code: '' @ fmt_d code)"
      using transcribe_failed_logcat [of h w path L code] by simp
    ultimately show ?thesis by (rule conjI)
  next
    assume r: "r = transcribeFromFloatArray L w h a"
    with assms(2) tffa_call_fullD [of ctx params samples w L h a]
    have c: "h \<noteq> 0" "array_access w a \<noteq> Access_fails" "ctx = ptr_of_jlong h"
      "params = bridge_params L" "samples = java_arrays w a"
      by simp_all
    with assms(3,4) r have "fst r = ''Error: Transcription failed''"
      by (simp add: tffa_result Let_def)
    moreover from c assms(3,4) r have "last (logcat (snd r))
           = (ANDROID_LOG_ERROR, ''Whisper transcription failed with code: '' @ fmt_d code)"
      using tffa_failed_logcat [of h w a L code] by simp
    ultimately show ?thesis by (rule conjI)
  qed
  then show "fst r = ''Error: Transcription failed''"
    and "last (logcat (snd r))
           = (ANDROID_LOG_ERROR, ''Whisper transcription failed with code: '' @ fmt_d code)"
    by simp_all
qed



text \<open>
  C3 as stated (the nonzero return code is part of the returned string) fails: the example
  library returns \<open>-7\<close>, and the string returned does not contain \<open>-7\<close>.
\<close>

theorem return_code_not_in_result:
  "Call_full 4096 (bridge_params demo_lib64) []
     \<in> set (made_calls demo_world64 (snd (transcribe demo_lib64 demo_world64 4096
                                             (Some ''silence.wav''))))
   \<and> fst (whisper_full demo_lib64 (lib demo_world64) 4096 (bridge_params demo_lib64) []) = - 7
   \<and> fst (transcribe demo_lib64 demo_world64 4096 (Some ''silence.wav''))
       = ''Error: Transcription failed''
   \<and> \<not> sublist (fmt_d (- 7)) (fst (transcribe demo_lib64 demo_world64 4096 (Some ''silence.wav'')))
   \<and> Call_full 4096 (bridge_params demo_lib64) []
       \<in> set (made_calls demo_world64 (snd (transcribeFromFloatArray demo_lib64 demo_world64 4096 2)))
   \<and> fst (transcribeFromFloatArray demo_lib64 demo_world64 4096 2) = ''Error: Transcription failed''
   \<and> \<not> sublist (fmt_d (- 7)) (fst (transcribeFromFloatArray demo_lib64 demo_world64 4096 2))"
  by code_simp

text \<open>
  C3, amended: when the inference call returns a nonzero code, both transcription
  functions return the fixed string \<open>Error: Transcription failed\<close>, whatever the code;
  the code goes to the error log only, as the last message.
\<close>

theorem failed_inference_result_fixed:
  assumes "r = transcribe L w h p \<or> r = transcribeFromFloatArray L w h a"
    and "Call_full ctx params samples \<in> set (made_calls w (snd r))"
    and "fst (whisper_full L (lib w) ctx params samples) = code"
    and "code \<noteq> 0"
  shows "fst r = ''Error: Transcription failed''
     \<and> last (logcat (snd r))
         = (ANDROID_LOG_ERROR, ''Whisper transcription failed with code: '' @ fmt_d code)"
  using failed_inference_result [OF assms] by (rule conjI)

text \<open>The code \<open>-7\<close> of the example library ends up in the log.\<close>

theorem failed_inference_result_fixed_witness:
  "Call_full 4096 (bridge_params demo_lib64) []
     \<in> set (made_calls demo_world64 (snd (transcribeFromFloatArray demo_lib64 demo_world64 4096 2)))
   \<and> fst (whisper_full demo_lib64 (lib demo_world64) 4096 (bridge_params demo_lib64) []) = - 7
   \<and> fst (transcribeFromFloatArray demo_lib64 demo_world64 4096 2) = ''Error: Transcription failed''
   \<and> last (logcat (snd (transcribeFromFloatArray demo_lib64 demo_world64 4096 2)))
       = (ANDROID_LOG_ERROR, ''Whisper transcription failed with code: -7'')"
proof -
  let ?L = "demo_lib64" and ?w = "demo_world64"
  let ?r = "transcribeFromFloatArray ?L ?w 4096 2"
  have c: "Call_full 4096 (bridge_params ?L) [] \<in> set (made_calls ?w (snd ?r))"
    by code_simp
  have z: "fst (whisper_full ?L (lib ?w) 4096 (bridge_params ?L) []) = - 7"
    by (simp add: demo_lib_def)
  have n: "(- 7 :: int) \<noteq> 0" by simp
  have f: "fmt_d (- 7) = ''-7''" by code_simp
  from failed_inference_result_fixed [of ?r ?L ?w 4096 "Some ''x''" 2, OF disjI2 c z n, OF refl]
  have "fst ?r = ''Error: Transcription failed''
     \<and> last (logcat (snd ?r))
         = (ANDROID_LOG_ERROR, ''Whisper transcription failed with code: -7'')"
    by (simp only: f append.simps)
  with c z show ?thesis by blast
qed

end
